theory Spec2Isabelle
  imports Main "HOL-Library.Sublist"
begin

section \<open>The test-execution harness of stb-tester (\<open>_stbt/stbt_run.py\<close>)\<close>

text \<open>
  The module is Python 2 (\<open>execfile\<close>, \<open>func_code\<close>). Its five functions are embedded
  below: raised conditions are values, the interpreter state the functions assign to
  (\<open>sys.argv\<close>, \<open>sys.path\<close>, the two output streams, the trace hook) is passed explicitly,
  and the collaborators that are not part of the module (the importer, the device under
  test, the test body) are parameters.
\<close>

subsection \<open>Python values\<close>

text \<open>A video frame: a numpy array, of which the module reads \<open>shape[0]\<close> and \<open>shape[1]\<close>.\<close>

record image =
  shape0 :: nat
  shape1 :: nat
  pixels :: nat

text \<open>
  An exception object: the name of its class, the names of the classes it inherits from,
  the text \<open>exception_to_bytes\<close> gives for it, and its \<open>screenshot\<close> attribute
  (\<open>None\<close> when it has none).
\<close>

record pyexc =
  exc_class :: string
  exc_bases :: "string list"
  exc_message :: string
  exc_screenshot :: "image option"

definition isinstance :: "pyexc \<Rightarrow> string \<Rightarrow> bool" where
  "isinstance e c = (exc_class e = c \<or> c \<in> set (exc_bases e))"

text \<open>
  A traceback object is a chain of at least one entry; \<open>traceback.extract_tb\<close> lists
  the entries as (file name, line number, function name, source text), the source text
  being \<open>None\<close> when the line is not available.
\<close>

type_synonym tb_entry = "string \<times> nat \<times> string \<times> string option"

datatype traceback = TbLast tb_entry | TbNext tb_entry traceback

fun extract_tb :: "traceback \<Rightarrow> tb_entry list" where
  "extract_tb (TbLast e) = [e]"
| "extract_tb (TbNext e tb) = e # extract_tb tb"

fun tb_text :: "tb_entry \<Rightarrow> string option" where
  "tb_text (file, lineno, name, text) = text"

text \<open>How a block of code ends: it returns, or a condition is raised out of it.\<close>

datatype outcome = Returned | Raised pyexc

text \<open>The exceptions the module and the interpreter raise themselves.\<close>

definition standard_error :: "string \<Rightarrow> string \<Rightarrow> pyexc" where
  "standard_error cls msg =
     \<lparr>exc_class = cls,
      exc_bases = [''StandardError'', ''Exception'', ''BaseException'', ''object''],
      exc_message = msg, exc_screenshot = None\<rparr>"

definition ImportError :: "string \<Rightarrow> pyexc" where
  "ImportError msg = standard_error ''ImportError'' msg"

definition AttributeError :: "string \<Rightarrow> pyexc" where
  "AttributeError msg = standard_error ''AttributeError'' msg"

definition ZeroDivisionError :: pyexc where
  "ZeroDivisionError =
     \<lparr>exc_class = ''ZeroDivisionError'',
      exc_bases = [''ArithmeticError'', ''StandardError'', ''Exception'',
                   ''BaseException'', ''object''],
      exc_message = ''integer division or modulo by zero'', exc_screenshot = None\<rparr>"

subsection \<open>Output streams and files\<close>

text \<open>
  What is written to a stream: a string, or the rendering \<open>traceback.print_exc\<close> gives
  of the exception being handled and its traceback.
\<close>

datatype emitted = Text string | PrintExc pyexc traceback

text \<open>What \<open>cv2.imwrite\<close> stores: the frame as it is, or resized to a width and a
  height and compressed with a JPEG quality.\<close>

datatype artifact = Png image | Jpeg image nat nat nat

record world =
  stdout :: "emitted list"
  stderr :: "emitted list"
  files :: "(string \<times> artifact) list"

subsection \<open>\<open>sane_unicode_and_exception_handling\<close>\<close>

text \<open>\<open>"%s" % v\<close> for a value that is a string or \<open>None\<close>.\<close>

fun percent_s :: "string option \<Rightarrow> string" where
  "percent_s None = ''None''"
| "percent_s (Some s) = s"

definition fail_line :: "string \<Rightarrow> string \<Rightarrow> string option \<Rightarrow> string" where
  "fail_line script type_name error_message =
     ''FAIL: '' @ script @ '': '' @ type_name @ '': '' @ percent_s error_message
       @ [CHR 0x0A]"

text \<open>
  Lines 120 to 122: the text of the exception, replaced by the source text of the last
  traceback entry when it is empty and the exception is an \<open>AssertionError\<close>.
  \<open>tb\<close> is \<open>sys.exc_info()[2]\<close> in the handler.
\<close>

definition error_message_of :: "pyexc \<Rightarrow> traceback \<Rightarrow> string option" where
  "error_message_of e tb =
     (if exc_message e = [] \<and> isinstance e ''AssertionError''
      then tb_text (last (extract_tb tb))
      else Some (exc_message e))"

text \<open>How the scope of the classifier ends: its block completes and the program goes
  on, \<open>sys.exit\<close> is called with a code, or the condition is not handled.\<close>

datatype ending = Completed | SysExit int | Uncaught pyexc

text \<open>
  The context manager around a body that ended with \<open>body\<close>; when the body raised,
  \<open>tb\<close> is the traceback of the condition. The two stream wrappers installed before the
  body runs change the encoding of what is written, not what is written, and are left out.
\<close>

definition sane_unicode_and_exception_handling ::
    "string \<Rightarrow> traceback \<Rightarrow> outcome \<Rightarrow> world \<Rightarrow> world \<times> ending" where
  "sane_unicode_and_exception_handling script tb body w =
     (case body of
        Returned \<Rightarrow> (w, Completed)
      | Raised e \<Rightarrow>
          if isinstance e ''Exception'' then
            let error_message = error_message_of e tb;
                w1 = w\<lparr>stdout := stdout w @ [Text (fail_line script (exc_class e) error_message)]\<rparr>;
                w2 = w1\<lparr>stderr := stderr w1 @ [PrintExc e tb]\<rparr>
            in if isinstance e ''UITestFailure'' \<or> isinstance e ''AssertionError''
               then (w2, SysExit 1)
               else (w2, SysExit 2)
          else (w, Uncaught e))"

subsection \<open>\<open>_save_screenshot\<close> and \<open>video\<close>\<close>

text \<open>
  The device under test: \<open>dut._display\<close> (\<open>None\<close> when there is no display
  connection) with its \<open>last_used_frame\<close>, and what \<open>dut.get_frame()\<close> does (it raises
  or it returns a frame).
\<close>

record display =
  last_used_frame :: "image option"

record dut =
  dut_display :: "display option"
  get_frame :: "pyexc + image"

text \<open>The parsed command line: both options are strings, compared with \<open>'never'\<close> and
  \<open>'always'\<close>.\<close>

record args =
  save_thumbnail :: string
  save_screenshot :: string

text \<open>Lines 17 to 21: the frame that is saved.\<close>

definition screenshot_of :: "dut \<Rightarrow> pyexc option \<Rightarrow> pyexc + image" where
  "screenshot_of d exception =
     (let screenshot = (case exception of None \<Rightarrow> None | Some e \<Rightarrow> exc_screenshot e);
          screenshot = (case (screenshot, dut_display d) of
                          (None, Some disp) \<Rightarrow> last_used_frame disp
                        | _ \<Rightarrow> screenshot)
      in case screenshot of
           None \<Rightarrow> get_frame d
         | Some img \<Rightarrow> Inr img)"

text \<open>
  \<open>_save_screenshot\<close> (a leading underscore of the source is written \<open>u_\<close>).
  \<open>cv2.imwrite\<close> and \<open>cv2.resize\<close> are taken to succeed; the
  integer division of line 31 raises when \<open>shape[1]\<close> is zero.
\<close>

definition u_save_screenshot ::
    "dut \<Rightarrow> pyexc option \<Rightarrow> bool \<Rightarrow> bool \<Rightarrow> world \<Rightarrow> world \<times> outcome" where
  "u_save_screenshot d exception save_jpg save_png w =
     (if \<not> save_jpg \<and> \<not> save_png then (w, Returned)
      else
        case screenshot_of d exception of
          Inl e \<Rightarrow> (w, Raised e)
        | Inr screenshot \<Rightarrow>
            let w1 = (if save_png
                      then w\<lparr>stderr := stderr w @
                                [Text (''Saved screenshot to '' @ [CHR 0x27] @ ''screenshot.png''
                                         @ [CHR 0x27] @ ''.'' @ [CHR 0x0A])],
                             files := files w @ [(''screenshot.png'', Png screenshot)]\<rparr>
                      else w)
            in if save_jpg then
                 (if shape1 screenshot = 0 then (w1, Raised ZeroDivisionError)
                  else (w1\<lparr>files := files w1 @
                              [(''thumbnail.jpg'',
                                Jpeg screenshot 640
                                  (640 * shape0 screenshot div shape1 screenshot) 50)]\<rparr>,
                        Returned))
               else (w1, Returned))"

text \<open>
  The body of \<open>video\<close> inside \<open>with stbt._set_dut_singleton(dut), dut\<close>, around a test
  that ended with \<open>body\<close>. The handlers are \<open>except Exception\<close>: a condition that is not
  an \<open>Exception\<close> passes through them.

  \<open>exc_info\<close> is the exception being handled, which the bare \<open>raise\<close> of line 47
  raises again. In Python 2 a handler sets it and leaving the handler does not restore
  it: after the inner handler of lines 45 and 46 has caught a condition of the capture,
  that condition is the one being handled.
\<close>

definition video :: "args \<Rightarrow> dut \<Rightarrow> outcome \<Rightarrow> world \<Rightarrow> world \<times> outcome" where
  "video a d body w =
     (case body of
        Raised e \<Rightarrow>
          if isinstance e ''Exception'' then
            let exc_info = e in
            (case u_save_screenshot d None
                    (save_thumbnail a \<noteq> ''never'') (save_screenshot a \<noteq> ''never'') w of
               (w', Returned) \<Rightarrow> (w', Raised exc_info)
             | (w', Raised e') \<Rightarrow>
                 if isinstance e' ''Exception'' then
                   let exc_info = e' in (w', Raised exc_info)
                 else (w', Raised e'))
          else (w, Raised e)
      | Returned \<Rightarrow>
          u_save_screenshot d None
            (save_thumbnail a = ''always'') (save_screenshot a = ''always'') w)"

subsection \<open>Strings and paths (\<open>str\<close>, \<open>posixpath\<close>)\<close>

definition startswith :: "string \<Rightarrow> string \<Rightarrow> bool" where
  "startswith s p = prefix p s"

definition endswith :: "string \<Rightarrow> string \<Rightarrow> bool" where
  "endswith s p = suffix p s"

text \<open>\<open>s.rfind(c)\<close>: the index of the last \<open>c\<close> in \<open>s\<close>, or \<open>-1\<close>.\<close>

fun rfind_from :: "char \<Rightarrow> string \<Rightarrow> int \<Rightarrow> int \<Rightarrow> int" where
  "rfind_from c [] i found = found"
| "rfind_from c (x # xs) i found = rfind_from c xs (i + 1) (if x = c then i else found)"

definition rfind :: "string \<Rightarrow> char \<Rightarrow> int" where
  "rfind s c = rfind_from c s 0 (- 1)"

text \<open>\<open>s.rstrip('/')\<close> and \<open>s.split('/')\<close>.\<close>

definition rstrip :: "string \<Rightarrow> char \<Rightarrow> string" where
  "rstrip s c = rev (dropWhile (\<lambda>x. x = c) (rev s))"

fun split_char :: "string \<Rightarrow> char \<Rightarrow> string list" where
  "split_char [] c = [[]]"
| "split_char (x # xs) c =
     (if x = c then [] # split_char xs c
      else (case split_char xs c of
              [] \<Rightarrow> [[x]]
            | y # ys \<Rightarrow> (x # y) # ys))"

fun join_with :: "string \<Rightarrow> string list \<Rightarrow> string" where
  "join_with sep [] = []"
| "join_with sep [x] = x"
| "join_with sep (x # y # ys) = x @ sep @ join_with sep (y # ys)"

text \<open>\<open>'::' in script\<close> and \<open>script.split('::', 1)\<close>: \<open>None\<close> when \<open>::\<close> does not
  occur, otherwise what stands before and after its first occurrence.\<close>

fun split_colons :: "string \<Rightarrow> (string \<times> string) option" where
  "split_colons [] = None"
| "split_colons [c] = None"
| "split_colons (c # d # rest) =
     (if c = CHR '':'' \<and> d = CHR '':'' then Some ([], rest)
      else (case split_colons (d # rest) of
              None \<Rightarrow> None
            | Some (before, after) \<Rightarrow> Some (c # before, after)))"

text \<open>\<open>os.path.split\<close>, \<open>os.path.dirname\<close>.\<close>

definition os_path_split :: "string \<Rightarrow> string \<times> string" where
  "os_path_split p =
     (let i = nat (rfind p CHR ''/'' + 1);
          head = take i p;
          tail = drop i p;
          head = (if head \<noteq> [] \<and> head \<noteq> replicate (length head) CHR ''/''
                  then rstrip head CHR ''/'' else head)
      in (head, tail))"

definition os_path_dirname :: "string \<Rightarrow> string" where
  "os_path_dirname p = fst (os_path_split p)"

text \<open>\<open>os.path.splitext\<close>: the loop looks for a character that is not a dot between the
  last separator and the last dot.\<close>

fun other_than_dot :: "string \<Rightarrow> bool" where
  "other_than_dot [] = False"
| "other_than_dot (x # xs) = (if x \<noteq> CHR ''.'' then True else other_than_dot xs)"

definition os_path_splitext :: "string \<Rightarrow> string \<times> string" where
  "os_path_splitext p =
     (let sepIndex = rfind p CHR ''/'';
          dotIndex = rfind p CHR ''.''
      in if dotIndex > sepIndex
            \<and> other_than_dot (take (nat dotIndex - nat (sepIndex + 1)) (drop (nat (sepIndex + 1)) p))
         then (take (nat dotIndex) p, drop (nat dotIndex) p)
         else (p, []))"

text \<open>\<open>os.path.isabs\<close>, \<open>os.path.join\<close> of two paths, \<open>os.path.normpath\<close> and
  \<open>os.path.abspath\<close>, the last with the current directory as an argument.\<close>

definition os_path_isabs :: "string \<Rightarrow> bool" where
  "os_path_isabs s = startswith s ''/''"

definition os_path_join :: "string \<Rightarrow> string \<Rightarrow> string" where
  "os_path_join a b =
     (if startswith b ''/'' then b
      else if a = [] \<or> endswith a ''/'' then a @ b
      else a @ ''/'' @ b)"

definition normpath_step :: "nat \<Rightarrow> string list \<Rightarrow> string \<Rightarrow> string list" where
  "normpath_step initial_slashes new_comps part =
     (if part = [] \<or> part = ''.'' then new_comps
      else if part \<noteq> ''..'' \<or> (initial_slashes = 0 \<and> new_comps = [])
              \<or> (new_comps \<noteq> [] \<and> last new_comps = ''..'')
      then new_comps @ [part]
      else if new_comps \<noteq> [] then butlast new_comps
      else new_comps)"

definition os_path_normpath :: "string \<Rightarrow> string" where
  "os_path_normpath path =
     (if path = [] then ''.''
      else
        let initial_slashes =
              (if startswith path ''/'' then
                 (if startswith path ''//'' \<and> \<not> startswith path ''///'' then 2 else 1)
               else 0);
            comps = foldl (normpath_step initial_slashes) [] (split_char path CHR ''/'');
            path = join_with ''/'' comps;
            path = replicate initial_slashes CHR ''/'' @ path
        in if path = [] then ''.'' else path)"

definition os_path_abspath :: "string \<Rightarrow> string \<Rightarrow> string" where
  "os_path_abspath cwd path =
     os_path_normpath (if os_path_isabs path then path else os_path_join cwd path)"

subsection \<open>\<open>_import_by_filename\<close> and \<open>load_test_function\<close>\<close>

text \<open>
  A code object, and an attribute of a module: the name of its type, whether it is
  callable, and its \<open>func_code\<close> attribute (\<open>None\<close> when it has none). A module is
  the map of its attributes.
\<close>

record pycode =
  co_filename :: string
  co_firstlineno :: nat

record pyobject =
  obj_type :: string
  obj_callable :: bool
  func_code :: "pycode option"

type_synonym pymodule = "string \<rightharpoonup> pyobject"

text \<open>
  The interpreter state the loader assigns to, the current directory that
  \<open>os.path.abspath\<close> reads, and the assignments, imports and executions in the order
  they happen.
\<close>

datatype effect =
    SetArgv "string list"
  | SetSysPath "string list"
  | Import string
  | ExecFile string

record pystate =
  argv :: "string list"
  sys_path :: "string list"
  cwd :: string
  effects :: "effect list"

text \<open>The values of the namespace of a whole-file test; the namespace is a dictionary,
  kept as the list of its items, and \<open>d[k] = v\<close> replaces the item of \<open>k\<close> or adds one.\<close>

datatype gval = Builtins | Str string | PyNone | StbtModule | StbtAttr string

fun dict_set :: "(string \<times> gval) list \<Rightarrow> string \<Rightarrow> gval \<Rightarrow> (string \<times> gval) list" where
  "dict_set [] k v = [(k, v)]"
| "dict_set ((k', v') # items) k v =
     (if k' = k then (k, v) # items else (k', v') # dict_set items k v)"

text \<open>What \<open>call\<close> holds: the attribute of the module, or the closure \<open>fn\<close> with the
  \<open>filename\<close> and \<open>test_globals\<close> it refers to.\<close>

datatype test_call = CallObject pyobject | CallFn string "(string \<times> gval) list"

record u_TestFunction =
  script :: string
  filename :: string
  funcname :: string
  line :: nat
  call :: test_call

definition quoted :: "string \<Rightarrow> string" where
  "quoted s = [CHR 0x27] @ s @ [CHR 0x27]"

text \<open>
  \<open>_import_by_filename\<close>. \<open>__import__\<close> is the parameter \<open>importer\<close>: from the state
  at the import and the module name to the module, or to the condition the import raises.
\<close>

definition u_import_by_filename ::
    "(pystate \<Rightarrow> string \<Rightarrow> pyexc + pymodule) \<Rightarrow> pystate \<Rightarrow> string
       \<Rightarrow> pystate \<times> (pyexc + pymodule)" where
  "u_import_by_filename importer s filename_arg =
     (let (module_dir, module_file) = os_path_split filename_arg;
          (module_name, module_ext) = os_path_splitext module_file
      in if module_ext \<noteq> ''.py''
         then (s, Inl (ImportError (''Invalid module filename '' @ quoted filename_arg)))
         else
           let p = os_path_abspath (cwd s) module_dir # sys_path s;
               s1 = s\<lparr>sys_path := p, effects := effects s @ [SetSysPath p]\<rparr>
           in (s1\<lparr>effects := effects s1 @ [Import module_name]\<rparr>, importer s1 module_name))"

text \<open>The names of lines 90 to 94, as \<open>split()\<close> lists them.\<close>

definition compat_names :: "string list" where
  "compat_names =
     [''press'', ''press_until_match'', ''wait_for_match'', ''wait_for_motion'',
      ''detect_match'', ''MatchResult'', ''Position'', ''detect_motion'',
      ''MotionResult'', ''save_frame'', ''get_frame'', ''MatchParameters'',
      ''debug'', ''UITestError'', ''UITestFailure'', ''MatchTimeout'', ''MotionTimeout'',
      ''ConfigurationError'']"

definition test_globals_of :: "string \<Rightarrow> (string \<times> gval) list" where
  "test_globals_of scr =
     fold (\<lambda>x test_globals. dict_set test_globals x (StbtAttr x)) compat_names
       [(''__builtins__'', Builtins),
        (''__name__'', Str ''__main__''),
        (''__file__'', Str scr),
        (''__doc__'', PyNone),
        (''__package__'', PyNone),
        (''stbt'', StbtModule)]"

text \<open>The closure \<open>fn\<close> of lines 97 to 99, up to the execution of the file.\<close>

definition fn :: "string \<Rightarrow> (string \<times> gval) list \<Rightarrow> pystate \<Rightarrow> pystate" where
  "fn filename' test_globals s =
     (let p = os_path_dirname filename' # sys_path s
      in s\<lparr>sys_path := p, effects := effects s @ [SetSysPath p, ExecFile filename']\<rparr>)"

definition load_test_function ::
    "(pystate \<Rightarrow> string \<Rightarrow> pyexc + pymodule) \<Rightarrow> pystate \<Rightarrow> string \<Rightarrow> string list
       \<Rightarrow> pystate \<times> (pyexc + u_TestFunction)" where
  "load_test_function importer s scr args' =
     (let s0 = s\<lparr>argv := scr # args', effects := effects s @ [SetArgv (scr # args')]\<rparr>
      in case split_colons scr of
           Some (filename', funcname') \<Rightarrow>
             (case u_import_by_filename importer s0 filename' of
                (s1, Inl e) \<Rightarrow> (s1, Inl e)
              | (s1, Inr m) \<Rightarrow>
                  (case m funcname' of
                     None \<Rightarrow>
                       (s1, Inl (AttributeError
                          (quoted ''module'' @ '' object has no attribute '' @ quoted funcname')))
                   | Some function \<Rightarrow>
                       (case func_code function of
                          None \<Rightarrow>
                            (s1, Inl (AttributeError
                               (quoted (obj_type function) @ '' object has no attribute ''
                                  @ quoted ''func_code'')))
                        | Some code \<Rightarrow>
                            (s1, Inr \<lparr>script = scr, filename = filename', funcname = funcname',
                                      line = co_firstlineno code, call = CallObject function\<rparr>))))
         | None \<Rightarrow>
             let filename' = os_path_abspath (cwd s0) scr;
                 test_globals = test_globals_of scr
             in (s0, Inr \<lparr>script = scr, filename = scr, funcname = [], line = 1,
                          call = CallFn filename' test_globals\<rparr>))"

subsection \<open>\<open>tracing\<close>\<close>

record pyframe =
  f_code :: pycode
  f_lineno :: nat

text \<open>
  The calls on the trace sink, and the operations of \<open>tracing\<close> in the order they
  happen: the sink is made, it is called, the trace hook is set. The hook that
  \<open>sys.settrace\<close> installs is \<open>tracefunc\<close>, which is determined by the \<open>absfilename\<close>
  it refers to; \<open>SetTrace None\<close> removes it.
\<close>

datatype sink_call =
    LogTestStarting u_TestFunction
  | LogCurrentLine string nat
  | LogTestEnded
  | Close

datatype trace_op = NewStateSender string | Sink sink_call | SetTrace "string option"

record tracer =
  ops :: "trace_op list"
  hook :: "string option"

definition tracefunc :: "string \<Rightarrow> pyframe \<Rightarrow> string \<Rightarrow> tracer \<Rightarrow> tracer" where
  "tracefunc absfilename frame' event t =
     (if event = ''line'' \<and> co_filename (f_code frame') = absfilename
      then t\<lparr>ops := ops t @
                [Sink (LogCurrentLine (co_filename (f_code frame')) (f_lineno frame'))]\<rparr>
      else t)"

text \<open>
  The test callable as the tracer sees it: the trace events (frame and event name) its
  execution gives rise to, each passed to the installed hook if there is one. Since
  \<open>tracefunc\<close> returns itself, it stays the hook of every frame.
\<close>

fun run_events :: "(pyframe \<times> string) list \<Rightarrow> tracer \<Rightarrow> tracer" where
  "run_events [] t = t"
| "run_events ((frame', event) # rest) t =
     run_events rest
       (case hook t of
          None \<Rightarrow> t
        | Some absfilename \<Rightarrow> tracefunc absfilename frame' event t)"

text \<open>\<open>tracing\<close> around a test callable that gives rise to \<open>events\<close> and ends with
  \<open>body\<close>; the \<open>finally\<close> block runs in both cases and the outcome is passed on.\<close>

definition tracing ::
    "string \<Rightarrow> u_TestFunction \<Rightarrow> string \<Rightarrow> (pyframe \<times> string) list \<Rightarrow> outcome \<Rightarrow> tracer
       \<Rightarrow> tracer \<times> outcome" where
  "tracing save_trace_arg test_function cwd' events body t =
     (let t0 = t\<lparr>ops := ops t @ [NewStateSender save_trace_arg]\<rparr>;
          absfilename = os_path_abspath cwd' (filename test_function);
          t1 = t0\<lparr>ops := ops t0 @ [Sink (LogTestStarting test_function)]\<rparr>;
          t2 = t1\<lparr>hook := Some absfilename, ops := ops t1 @ [SetTrace (Some absfilename)]\<rparr>;
          t3 = run_events events t2;
          t4 = t3\<lparr>hook := None, ops := ops t3 @ [SetTrace None]\<rparr>;
          t5 = t4\<lparr>ops := ops t4 @ [Sink LogTestEnded]\<rparr>;
          t6 = t5\<lparr>ops := ops t5 @ [Sink Close]\<rparr>
      in (t6, body))"

subsection \<open>Concrete runs\<close>

text \<open>
  The values at which the theorems below are instantiated: conditions a test can raise,
  a traceback whose last entry is the line \<open>assert x == 1\<close>, a device with a display
  connection and one whose \<open>get_frame\<close> raises, command lines, a module \<open>tests/a.py\<close>
  with one attribute \<open>test_x\<close>, and the trace events of a test that calls into a library.
\<close>

definition world0 :: world where
  "world0 = \<lparr>stdout = [], stderr = [], files = []\<rparr>"

definition keyboard_interrupt :: pyexc where
  "keyboard_interrupt =
     \<lparr>exc_class = ''KeyboardInterrupt'', exc_bases = [''BaseException'', ''object''],
      exc_message = [], exc_screenshot = None\<rparr>"

definition assertion_error :: pyexc where
  "assertion_error = standard_error ''AssertionError'' []"

definition value_error :: pyexc where
  "value_error = standard_error ''ValueError'' ''bad value''"

definition runtime_error :: pyexc where
  "runtime_error = standard_error ''RuntimeError'' ''no video''"

definition attached_frame :: image where
  "attached_frame = \<lparr>shape0 = 720, shape1 = 1280, pixels = 1\<rparr>"

definition last_frame :: image where
  "last_frame = \<lparr>shape0 = 720, shape1 = 1280, pixels = 2\<rparr>"

definition fresh_frame :: image where
  "fresh_frame = \<lparr>shape0 = 720, shape1 = 1280, pixels = 3\<rparr>"

definition match_timeout :: pyexc where
  "match_timeout =
     \<lparr>exc_class = ''MatchTimeout'',
      exc_bases = [''UITestFailure'', ''Exception'', ''BaseException'', ''object''],
      exc_message = ''no match'', exc_screenshot = Some attached_frame\<rparr>"

definition example_tb :: traceback where
  "example_tb =
     TbNext (''/usr/lib/stbt/_stbt/stbt_run.py'', 118, ''sane_unicode_and_exception_handling'',
             Some ''yield'')
       (TbLast (''/home/u/tests/a.py'', 2, ''test_x'', Some ''assert x == 1''))"

definition dut_live :: dut where
  "dut_live = \<lparr>dut_display = Some \<lparr>last_used_frame = Some last_frame\<rparr>,
               get_frame = Inr fresh_frame\<rparr>"

definition dut_broken :: dut where
  "dut_broken = \<lparr>dut_display = None, get_frame = Inl runtime_error\<rparr>"

definition args_on_failure :: args where
  "args_on_failure = \<lparr>save_thumbnail = ''never'', save_screenshot = ''on-failure''\<rparr>"

definition args_always :: args where
  "args_always = \<lparr>save_thumbnail = ''never'', save_screenshot = ''always''\<rparr>"

definition state0 :: pystate where
  "state0 = \<lparr>argv = [''stbt-run''], sys_path = [], cwd = ''/home/u'', effects = []\<rparr>"

definition test_x_code :: pycode where
  "test_x_code = \<lparr>co_filename = ''/home/u/tests/a.py'', co_firstlineno = 3\<rparr>"

definition plain_function :: pyobject where
  "plain_function = \<lparr>obj_type = ''function'', obj_callable = True, func_code = Some test_x_code\<rparr>"

definition fake_object :: pyobject where
  "fake_object = \<lparr>obj_type = ''Fake'', obj_callable = False, func_code = Some test_x_code\<rparr>"

definition importer_of :: "pyobject \<Rightarrow> pystate \<Rightarrow> string \<Rightarrow> pyexc + pymodule" where
  "importer_of obj s name = Inr [''test_x'' \<mapsto> obj]"

definition tracer0 :: tracer where
  "tracer0 = \<lparr>ops = [], hook = None\<rparr>"

definition frame_at :: "string \<Rightarrow> nat \<Rightarrow> pyframe" where
  "frame_at file n = \<lparr>f_code = \<lparr>co_filename = file, co_firstlineno = 1\<rparr>, f_lineno = n\<rparr>"

definition example_events :: "(pyframe \<times> string) list" where
  "example_events =
     [(frame_at ''/home/u/tests/a.py'' 1, ''call''),
      (frame_at ''/home/u/tests/a.py'' 2, ''line''),
      (frame_at ''/usr/lib/python2.7/lib.py'' 10, ''call''),
      (frame_at ''/usr/lib/python2.7/lib.py'' 11, ''line''),
      (frame_at ''/usr/lib/python2.7/lib.py'' 11, ''return''),
      (frame_at ''/home/u/tests/a.py'' 3, ''line''),
      (frame_at ''/home/u/tests/a.py'' 3, ''return'')]"

definition whole_file_test :: u_TestFunction where
  "whole_file_test =
     \<lparr>script = ''tests/a.py'', filename = ''tests/a.py'', funcname = [], line = 1,
      call = CallFn ''/home/u/tests/a.py'' (test_globals_of ''tests/a.py'')\<rparr>"

definition int_object :: pyobject where
  "int_object = \<lparr>obj_type = ''int'', obj_callable = False, func_code = None\<rparr>"

section \<open>Properties\<close>

subsection \<open>Auxiliary facts\<close>

lemma isinstance_standard_error [simp]:
  "isinstance (standard_error cls msg) c =
     (cls = c \<or> c \<in> {''StandardError'', ''Exception'', ''BaseException'', ''object''})"
  by (auto simp: isinstance_def standard_error_def)

text \<open>The extension and the file name are ends of the path they are taken from.\<close>

lemma splitext_ext_suffix: "suffix (snd (os_path_splitext p)) p"
  by (simp add: os_path_splitext_def Let_def suffix_drop)

lemma split_tail_suffix: "suffix (snd (os_path_split p)) p"
  by (simp add: os_path_split_def Let_def suffix_drop)

lemma import_by_filename_extension:
  assumes "\<not> endswith path ''.py''"
  shows "u_import_by_filename importer s path =
           (s, Inl (ImportError (''Invalid module filename '' @ quoted path)))"
proof -
  obtain mdir mfile where sp: "os_path_split path = (mdir, mfile)"
    by (cases "os_path_split path")
  obtain mname mext where se: "os_path_splitext mfile = (mname, mext)"
    by (cases "os_path_splitext mfile")
  have "suffix mext mfile" using splitext_ext_suffix [of mfile] se by simp
  moreover have "suffix mfile path" using split_tail_suffix [of path] sp by simp
  ultimately have "suffix mext path" by (rule suffix_order.trans)
  with assms have "mext \<noteq> ''.py''" by (auto simp: endswith_def)
  then show ?thesis by (simp add: u_import_by_filename_def sp se)
qed

lemma import_by_filename_effects:
  "u_import_by_filename importer s path = (s1, r) \<Longrightarrow>
     argv s1 = argv s \<and> (\<exists>rest. effects s1 = effects s @ rest)"
  by (auto simp: u_import_by_filename_def Let_def split: prod.splits if_splits)

lemma split_colons_Some: "split_colons scr = Some (a, b) \<Longrightarrow> scr = a @ ''::'' @ b"
  by (induction scr arbitrary: a rule: split_colons.induct) (auto split: if_splits option.splits)

text \<open>The import of \<open>tests/a.py\<close> in the concrete runs.\<close>

lemma import_a_py:
  "u_import_by_filename (importer_of obj) s ''tests/a.py'' =
     (s\<lparr>sys_path := os_path_abspath (cwd s) ''tests'' # sys_path s,
        effects := effects s @ [SetSysPath (os_path_abspath (cwd s) ''tests'' # sys_path s),
                                Import ''a'']\<rparr>,
      Inr [''test_x'' \<mapsto> obj])"
  by (simp add: u_import_by_filename_def Let_def os_path_split_def os_path_splitext_def
        rfind_def rstrip_def importer_of_def)

text \<open>With the hook installed, the events of a run add one report for each line event
  of the traced file, in order, and nothing else.\<close>

lemma run_events_installed:
  "hook t = Some absfilename \<Longrightarrow>
   run_events events t =
     t\<lparr>ops := ops t @
        map (\<lambda>(frame', event). Sink (LogCurrentLine (co_filename (f_code frame')) (f_lineno frame')))
          (filter (\<lambda>(frame', event). event = ''line'' \<and> co_filename (f_code frame') = absfilename)
             events)\<rparr>"
proof (induction events arbitrary: t)
  case Nil
  then show ?case by simp
next
  case (Cons ev events)
  obtain frame' event where ev: "ev = (frame', event)" by (cases ev)
  have h: "hook (tracefunc absfilename frame' event t) = Some absfilename"
    using Cons.prems by (simp add: tracefunc_def)
  show ?case
    using Cons.prems Cons.IH [OF h] by (simp add: ev tracefunc_def)
qed

lemma tracing_ops:
  "tracing save_trace_arg test_function cwd' events body t =
     (t\<lparr>ops := ops t @
          [NewStateSender save_trace_arg, Sink (LogTestStarting test_function),
           SetTrace (Some (os_path_abspath cwd' (filename test_function)))] @
          map (\<lambda>(frame', event). Sink (LogCurrentLine (co_filename (f_code frame')) (f_lineno frame')))
            (filter (\<lambda>(frame', event). event = ''line''
                       \<and> co_filename (f_code frame') = os_path_abspath cwd' (filename test_function))
               events) @
          [SetTrace None, Sink LogTestEnded, Sink Close],
        hook := None\<rparr>, body)"
  by (simp add: tracing_def Let_def run_events_installed)

lemma line_report_mem:
  "Sink (LogCurrentLine file n)
     \<in> (\<lambda>(frame', event). Sink (LogCurrentLine (co_filename (f_code frame')) (f_lineno frame')))
         ` {x \<in> set events. case x of (frame', event) \<Rightarrow>
                event = ''line'' \<and> co_filename (f_code frame') = absfilename}
   \<longleftrightarrow> file = absfilename
       \<and> (\<exists>fr. (fr, ''line'') \<in> set events \<and> co_filename (f_code fr) = file \<and> f_lineno fr = n)"
  by (auto simp: image_iff)

lemma count_line_reports:
  "\<forall>f n. c \<noteq> Sink (LogCurrentLine f n) \<Longrightarrow>
     count_list (map (\<lambda>(frame', event). Sink (LogCurrentLine (co_filename (f_code frame'))
                         (f_lineno frame'))) evs) c = 0"
  by (induction evs) auto

lemma example_abspath: "os_path_abspath ''/home/u'' ''tests/a.py'' = ''/home/u/tests/a.py''"
  by code_simp

subsection \<open>The outcome classifier\<close>

text \<open>
  C1. When the test returns, the classifier's block completes without a call of
  \<open>sys.exit\<close>, and the program goes on to its normal end. When the test raises an
  instance of \<open>Exception\<close>, the classifier exits with code 1 if the condition is an
  instance of \<open>UITestFailure\<close> or of \<open>AssertionError\<close>, and with code 2 otherwise.
  A condition that is not an instance of \<open>Exception\<close> (\<open>KeyboardInterrupt\<close>,
  \<open>SystemExit\<close>) is not handled: it leaves the classifier as it came, and nothing is
  written. The classifier calls \<open>sys.exit\<close> with no code other than 1 and 2.
\<close>

theorem classifier_exit_codes:
  "sane_unicode_and_exception_handling scr tb Returned w = (w, Completed)
   \<and> (isinstance e ''Exception''
        \<and> (isinstance e ''UITestFailure'' \<or> isinstance e ''AssertionError'')
      \<longrightarrow> snd (sane_unicode_and_exception_handling scr tb (Raised e) w) = SysExit 1)
   \<and> (isinstance e ''Exception''
        \<and> \<not> isinstance e ''UITestFailure'' \<and> \<not> isinstance e ''AssertionError''
      \<longrightarrow> snd (sane_unicode_and_exception_handling scr tb (Raised e) w) = SysExit 2)
   \<and> (\<not> isinstance e ''Exception''
      \<longrightarrow> sane_unicode_and_exception_handling scr tb (Raised e) w = (w, Uncaught e))
   \<and> (snd (sane_unicode_and_exception_handling scr tb body w) = SysExit n
      \<longrightarrow> n = 1 \<or> n = 2)"
  by (cases body) (simp_all add: sane_unicode_and_exception_handling_def Let_def)

text \<open>The four cases at a test that returns, one that raises \<open>AssertionError()\<close>, one
  that raises a \<open>MatchTimeout\<close>, one that raises a \<open>ValueError\<close> and one that is
  interrupted from the keyboard.\<close>

theorem classifier_exit_codes_witness:
  "sane_unicode_and_exception_handling ''tests/a.py'' example_tb Returned world0
     = (world0, Completed)
   \<and> snd (sane_unicode_and_exception_handling ''tests/a.py'' example_tb
            (Raised assertion_error) world0) = SysExit 1
   \<and> snd (sane_unicode_and_exception_handling ''tests/a.py'' example_tb
            (Raised match_timeout) world0) = SysExit 1
   \<and> snd (sane_unicode_and_exception_handling ''tests/a.py'' example_tb
            (Raised value_error) world0) = SysExit 2
   \<and> sane_unicode_and_exception_handling ''tests/a.py'' example_tb
            (Raised keyboard_interrupt) world0 = (world0, Uncaught keyboard_interrupt)"
  using classifier_exit_codes [of "''tests/a.py''" example_tb world0 assertion_error]
        classifier_exit_codes [of "''tests/a.py''" example_tb world0 match_timeout]
        classifier_exit_codes [of "''tests/a.py''" example_tb world0 value_error]
        classifier_exit_codes [of "''tests/a.py''" example_tb world0 keyboard_interrupt]
  by (simp add: assertion_error_def value_error_def match_timeout_def keyboard_interrupt_def
        isinstance_def standard_error_def)

text \<open>
  A \<open>KeyboardInterrupt\<close> is neither a \<open>UITestFailure\<close> nor an \<open>AssertionError\<close>,
  and the classifier does not exit with code 2 on it: "any other condition gives exit
  code 2" does not hold of conditions outside \<open>Exception\<close>.
\<close>

theorem other_condition_not_exit_2:
  "\<not> isinstance keyboard_interrupt ''UITestFailure''
   \<and> \<not> isinstance keyboard_interrupt ''AssertionError''
   \<and> snd (sane_unicode_and_exception_handling ''tests/a.py'' example_tb
            (Raised keyboard_interrupt) world0) \<noteq> SysExit 2"
  by (simp add: sane_unicode_and_exception_handling_def keyboard_interrupt_def isinstance_def)

text \<open>
  C5. For every instance of \<open>Exception\<close> raised out of the test, the classifier writes
  the string \<open>FAIL: <script>: <type>: <message>\<close> and a newline once, to standard
  output, then the traceback of the condition to the error stream, and nothing else.
\<close>

theorem fail_line_on_stdout:
  assumes "isinstance e ''Exception''"
  shows "fst (sane_unicode_and_exception_handling scr tb (Raised e) w) =
           w\<lparr>stdout := stdout w @ [Text (fail_line scr (exc_class e) (error_message_of e tb))],
             stderr := stderr w @ [PrintExc e tb]\<rparr>"
  using assms by (simp add: sane_unicode_and_exception_handling_def Let_def)

theorem fail_line_on_stdout_witness:
  "isinstance value_error ''Exception''
   \<and> fst (sane_unicode_and_exception_handling ''tests/a.py'' example_tb
            (Raised value_error) world0) =
       \<lparr>stdout = [Text (''FAIL: tests/a.py: ValueError: bad value'' @ [CHR 0x0A])],
        stderr = [PrintExc value_error example_tb], files = []\<rparr>"
proof -
  have h: "isinstance value_error ''Exception''" by (simp add: value_error_def)
  show ?thesis
    using h fail_line_on_stdout [OF h, of "''tests/a.py''" example_tb world0]
    by (simp add: world0_def fail_line_def error_message_of_def value_error_def standard_error_def)
qed

text \<open>
  When the test raises a \<open>ValueError\<close>, standard output is not what it was before, and
  the error stream holds the traceback only: the \<open>FAIL:\<close> line is not written there.
\<close>

theorem fail_line_not_on_stderr:
  "stdout (fst (sane_unicode_and_exception_handling ''tests/a.py'' example_tb
            (Raised value_error) world0)) \<noteq> stdout world0
   \<and> stderr (fst (sane_unicode_and_exception_handling ''tests/a.py'' example_tb
            (Raised value_error) world0)) = [PrintExc value_error example_tb]"
  by (simp add: sane_unicode_and_exception_handling_def Let_def world0_def value_error_def)

text \<open>
  C7. The message of the \<open>FAIL:\<close> line is the text of the condition whenever that text
  is not empty or the condition is not an \<open>AssertionError\<close>; when the text is empty and
  the condition is an \<open>AssertionError\<close>, it is the source text of the last entry of the
  traceback.
\<close>

theorem failure_message:
  assumes "isinstance e ''Exception''"
  shows "\<exists>m. stdout (fst (sane_unicode_and_exception_handling scr tb (Raised e) w)) =
               stdout w @ [Text (''FAIL: '' @ scr @ '': '' @ exc_class e @ '': '' @ percent_s m
                                   @ [CHR 0x0A])]
           \<and> (exc_message e \<noteq> [] \<longrightarrow> m = Some (exc_message e))
           \<and> (\<not> isinstance e ''AssertionError'' \<longrightarrow> m = Some (exc_message e))
           \<and> (exc_message e = [] \<and> isinstance e ''AssertionError''
                \<longrightarrow> m = tb_text (last (extract_tb tb)))"
  using assms
  by (simp add: sane_unicode_and_exception_handling_def Let_def fail_line_def error_message_of_def)

text \<open>\<open>AssertionError()\<close> raised by the line \<open>assert x == 1\<close> gives the message
  \<open>assert x == 1\<close>.\<close>

theorem failure_message_witness:
  "isinstance assertion_error ''Exception''
   \<and> exc_message assertion_error = [] \<and> isinstance assertion_error ''AssertionError''
   \<and> tb_text (last (extract_tb example_tb)) = Some ''assert x == 1''
   \<and> stdout (fst (sane_unicode_and_exception_handling ''tests/a.py'' example_tb
               (Raised assertion_error) world0)) =
       [Text (''FAIL: tests/a.py: AssertionError: assert x == 1'' @ [CHR 0x0A])]"
proof -
  have h: "isinstance assertion_error ''Exception''" by (simp add: assertion_error_def)
  have t: "tb_text (last (extract_tb example_tb)) = Some ''assert x == 1''"
    by (simp add: example_tb_def)
  have c: "exc_class assertion_error = ''AssertionError''" "exc_message assertion_error = []"
    by (simp_all add: assertion_error_def standard_error_def)
  have a: "isinstance assertion_error ''AssertionError''" by (simp add: assertion_error_def)
  from failure_message [OF h, of "''tests/a.py''" example_tb world0]
  obtain m where m: "stdout (fst (sane_unicode_and_exception_handling ''tests/a.py'' example_tb
               (Raised assertion_error) world0)) =
               stdout world0 @ [Text (''FAIL: '' @ ''tests/a.py'' @ '': '' @ exc_class assertion_error
                  @ '': '' @ percent_s m @ [CHR 0x0A])]"
      and fb: "exc_message assertion_error = [] \<and> isinstance assertion_error ''AssertionError''
                \<longrightarrow> m = tb_text (last (extract_tb example_tb))"
    by blast
  from fb c a t have "m = Some ''assert x == 1''" by simp
  with m c show ?thesis using h a t by (simp add: world0_def)
qed

subsection \<open>The capture of screenshots\<close>

text \<open>
  C3. When the test raises an instance of \<open>Exception\<close>, \<open>video\<close> ends by raising,
  and when the capture returns, the condition it raises is the one the test raised. A
  condition of the test that is not an instance of \<open>Exception\<close> passes through with no
  capture. When the test returns, the capture is not guarded: a condition it raises is
  raised out of \<open>video\<close>.
\<close>

theorem video_capture_conditions:
  "(isinstance e ''Exception'' \<longrightarrow> (\<exists>e'. snd (video a d (Raised e) w) = Raised e'))
   \<and> (isinstance e ''Exception''
        \<and> snd (u_save_screenshot d None (save_thumbnail a \<noteq> ''never'')
                 (save_screenshot a \<noteq> ''never'') w) = Returned
      \<longrightarrow> snd (video a d (Raised e) w) = Raised e)
   \<and> (\<not> isinstance e ''Exception'' \<longrightarrow> video a d (Raised e) w = (w, Raised e))
   \<and> (snd (u_save_screenshot d None (save_thumbnail a = ''always'')
              (save_screenshot a = ''always'') w) = Raised c
      \<longrightarrow> snd (video a d Returned w) = Raised c)"
  by (auto simp: video_def Let_def split: prod.splits outcome.splits)

theorem video_capture_conditions_witness:
  "isinstance match_timeout ''Exception''
   \<and> snd (u_save_screenshot dut_live None (save_thumbnail args_on_failure \<noteq> ''never'')
            (save_screenshot args_on_failure \<noteq> ''never'') world0) = Returned
   \<and> snd (video args_on_failure dut_live (Raised match_timeout) world0) = Raised match_timeout
   \<and> video args_on_failure dut_live (Raised keyboard_interrupt) world0
       = (world0, Raised keyboard_interrupt)
   \<and> snd (u_save_screenshot dut_broken None (save_thumbnail args_always = ''always'')
            (save_screenshot args_always = ''always'') world0) = Raised runtime_error
   \<and> snd (video args_always dut_broken Returned world0) = Raised runtime_error"
  using video_capture_conditions [of match_timeout args_on_failure dut_live world0 runtime_error]
        video_capture_conditions [of keyboard_interrupt args_on_failure dut_live world0 runtime_error]
        video_capture_conditions [of match_timeout args_always dut_broken world0 runtime_error]
  by (simp add: u_save_screenshot_def screenshot_of_def dut_live_def dut_broken_def
        args_on_failure_def args_always_def match_timeout_def keyboard_interrupt_def
        isinstance_def Let_def)

text \<open>
  With \<open>save_screenshot\<close> set to \<open>always\<close> and a device whose \<open>get_frame\<close> raises,
  a test that returns leaves \<open>video\<close> with the condition of the capture, and the
  classifier around it exits with code 2 where the test alone completes.
\<close>

theorem capture_condition_escapes_on_success:
  "snd (video args_always dut_broken Returned world0) = Raised runtime_error
   \<and> snd (sane_unicode_and_exception_handling ''tests/a.py'' example_tb
            (snd (video args_always dut_broken Returned world0))
            (fst (video args_always dut_broken Returned world0))) = SysExit 2
   \<and> snd (sane_unicode_and_exception_handling ''tests/a.py'' example_tb Returned world0)
       = Completed"
  by (simp add: video_def u_save_screenshot_def screenshot_of_def dut_broken_def args_always_def
        sane_unicode_and_exception_handling_def runtime_error_def Let_def)

text \<open>
  The bare \<open>raise\<close> after a capture that failed: when the test raises an instance of
  \<open>Exception\<close> and the capture raises a condition, \<open>video\<close> raises the condition of
  the capture. For a condition outside \<open>Exception\<close> no handler stands in its way; for
  an instance of \<open>Exception\<close> the inner handler catches it and, under Python 2, leaves
  it as the exception that \<open>raise\<close> raises again.
\<close>

theorem capture_condition_raised_on_failure:
  "isinstance e ''Exception''
   \<and> snd (u_save_screenshot d None (save_thumbnail a \<noteq> ''never'')
            (save_screenshot a \<noteq> ''never'') w) = Raised c
   \<longrightarrow> snd (video a d (Raised e) w) = Raised c"
  by (auto simp: video_def Let_def split: prod.splits outcome.splits)

theorem capture_condition_raised_on_failure_witness:
  "isinstance match_timeout ''Exception''
   \<and> snd (u_save_screenshot dut_broken None (save_thumbnail args_on_failure \<noteq> ''never'')
            (save_screenshot args_on_failure \<noteq> ''never'') world0) = Raised runtime_error
   \<and> snd (video args_on_failure dut_broken (Raised match_timeout) world0) = Raised runtime_error"
  using capture_condition_raised_on_failure
          [of match_timeout dut_broken args_on_failure world0 runtime_error]
  by (simp add: u_save_screenshot_def screenshot_of_def dut_broken_def args_on_failure_def
        match_timeout_def isinstance_def Let_def)

text \<open>
  C4. \<open>_save_screenshot\<close> prefers the screenshot attached to the exception it is given,
  but \<open>video\<close> gives it \<open>exception=None\<close>. A test raises a \<open>MatchTimeout\<close> that
  carries a screenshot, the device has a display connection with a last used frame, and
  \<open>save_screenshot\<close> is \<open>on-failure\<close>: given the condition, lines 17 to 21 choose the
  attached screenshot; \<open>video\<close> saves the last used frame, which is another one.
\<close>

theorem attached_screenshot_not_used:
  "exc_screenshot match_timeout = Some attached_frame
   \<and> screenshot_of dut_live (Some match_timeout) = Inr attached_frame
   \<and> files (fst (video args_on_failure dut_live (Raised match_timeout) world0))
       = [(''screenshot.png'', Png last_frame)]
   \<and> last_frame \<noteq> attached_frame"
  by (simp add: video_def u_save_screenshot_def screenshot_of_def dut_live_def
        args_on_failure_def match_timeout_def isinstance_def world0_def Let_def
        last_frame_def attached_frame_def)

subsection \<open>The loader\<close>

text \<open>
  C2. For an identifier \<open>path::function\<close> (split at the first \<open>::\<close>) that is loaded,
  \<open>script\<close> is the identifier, \<open>filename\<close> is \<open>path\<close> as it is written in the
  identifier and \<open>funcname\<close> is \<open>function\<close>. An identifier without \<open>::\<close> is always
  loaded: \<open>filename\<close> is the identifier as it is written, \<open>funcname\<close> is empty and
  \<open>line\<close> is 1; the absolute path is kept in the closure that runs the file, not in
  the \<open>filename\<close> field.
\<close>

theorem loaded_filename_as_written:
  "(split_colons scr = Some (path, fname)
      \<and> load_test_function importer s scr args' = (s', Inr tf)
     \<longrightarrow> scr = path @ ''::'' @ fname \<and> script tf = scr \<and> filename tf = path \<and> funcname tf = fname)
   \<and> (split_colons scr = None
     \<longrightarrow> (\<exists>s' tf. load_test_function importer s scr args' = (s', Inr tf)
            \<and> script tf = scr \<and> filename tf = scr \<and> funcname tf = [] \<and> line tf = 1
            \<and> call tf = CallFn (os_path_abspath (cwd s) scr) (test_globals_of scr)))"
  by (auto simp: load_test_function_def Let_def dest: split_colons_Some
           split: prod.splits sum.splits option.splits)

theorem loaded_filename_as_written_witness:
  "split_colons ''tests/a.py::test_x'' = Some (''tests/a.py'', ''test_x'')
   \<and> map_sum id filename (snd (load_test_function (importer_of plain_function) state0
                                 ''tests/a.py::test_x'' [])) = Inr ''tests/a.py''
   \<and> map_sum id funcname (snd (load_test_function (importer_of plain_function) state0
                                 ''tests/a.py::test_x'' [])) = Inr ''test_x''
   \<and> split_colons ''tests/a.py'' = None
   \<and> map_sum id filename (snd (load_test_function (importer_of plain_function) state0
                                 ''tests/a.py'' [])) = Inr ''tests/a.py''
   \<and> map_sum id line (snd (load_test_function (importer_of plain_function) state0
                             ''tests/a.py'' [])) = Inr 1"
proof -
  have sc: "split_colons ''tests/a.py::test_x'' = Some (''tests/a.py'', ''test_x'')" by simp
  have sn: "split_colons ''tests/a.py'' = None" by simp
  obtain s' r where l: "load_test_function (importer_of plain_function) state0
                          ''tests/a.py::test_x'' [] = (s', r)"
    by (cases "load_test_function (importer_of plain_function) state0 ''tests/a.py::test_x'' []")
  have "\<exists>tf. r = Inr tf"
    using l by (auto simp: load_test_function_def Let_def import_a_py plain_function_def)
  then obtain tf where r: "r = Inr tf" by blast
  from loaded_filename_as_written [of "''tests/a.py::test_x''" "''tests/a.py''" "''test_x''"
         "importer_of plain_function" state0 "[]" s' tf] sc l r
  have 1: "filename tf = ''tests/a.py'' \<and> funcname tf = ''test_x''" by simp
  from loaded_filename_as_written [of "''tests/a.py''" "''tests/a.py''" "''test_x''"
         "importer_of plain_function" state0 "[]" s' tf] sn
  obtain s2 tf2 where 2: "load_test_function (importer_of plain_function) state0 ''tests/a.py'' []
                           = (s2, Inr tf2)" "filename tf2 = ''tests/a.py''" "line tf2 = 1"
    by blast
  show ?thesis using sc sn 1 2 l r by simp
qed

text \<open>
  In the directory \<open>/home/u\<close> the file of \<open>tests/a.py\<close> has the absolute path
  \<open>/home/u/tests/a.py\<close>; loaded as a whole file or with a function name, the
  \<open>filename\<close> field is \<open>tests/a.py\<close>.
\<close>

theorem loaded_filename_not_absolute:
  "map_sum id filename (snd (load_test_function (importer_of plain_function) state0
                               ''tests/a.py'' [])) = Inr ''tests/a.py''
   \<and> map_sum id filename (snd (load_test_function (importer_of plain_function) state0
                                 ''tests/a.py::test_x'' [])) = Inr ''tests/a.py''
   \<and> os_path_abspath (cwd state0) ''tests/a.py'' = ''/home/u/tests/a.py''
   \<and> ''tests/a.py'' \<noteq> ''/home/u/tests/a.py''"
  by (simp add: load_test_function_def Let_def import_a_py plain_function_def state0_def
        example_abspath)

text \<open>
  C6. For an identifier \<open>path::function\<close> whose path does not end in \<open>.py\<close>, loading
  fails with the \<open>ImportError\<close> "Invalid module filename". Once the module is imported,
  loading fails with an \<open>AttributeError\<close> when the module has no attribute of the name,
  and when the attribute has no \<open>func_code\<close>; an attribute with a \<open>func_code\<close> is
  loaded, callable or not.
\<close>

theorem load_errors:
  "(split_colons scr = Some (path, fname) \<and> \<not> endswith path ''.py''
     \<longrightarrow> snd (load_test_function importer s scr args')
           = Inl (ImportError (''Invalid module filename '' @ quoted path)))
   \<and> (split_colons scr = Some (path, fname)
        \<and> u_import_by_filename importer
             (s\<lparr>argv := scr # args', effects := effects s @ [SetArgv (scr # args')]\<rparr>) path
           = (s1, Inr m)
     \<longrightarrow> (m fname = None
           \<longrightarrow> load_test_function importer s scr args'
                 = (s1, Inl (AttributeError
                      (quoted ''module'' @ '' object has no attribute '' @ quoted fname))))
        \<and> (\<forall>function. m fname = Some function \<and> func_code function = None
           \<longrightarrow> load_test_function importer s scr args'
                 = (s1, Inl (AttributeError
                      (quoted (obj_type function) @ '' object has no attribute ''
                         @ quoted ''func_code''))))
        \<and> (\<forall>function code. m fname = Some function \<and> func_code function = Some code
           \<longrightarrow> load_test_function importer s scr args'
                 = (s1, Inr \<lparr>script = scr, filename = path, funcname = fname,
                             line = co_firstlineno code, call = CallObject function\<rparr>)))"
proof (intro conjI impI allI)
  assume "split_colons scr = Some (path, fname) \<and> \<not> endswith path ''.py''"
  then show "snd (load_test_function importer s scr args')
           = Inl (ImportError (''Invalid module filename '' @ quoted path))"
    by (simp add: load_test_function_def Let_def import_by_filename_extension)
qed (simp_all add: load_test_function_def Let_def)

theorem load_errors_witness:
  "split_colons ''tests/a.txt::test_x'' = Some (''tests/a.txt'', ''test_x'')
   \<and> \<not> endswith ''tests/a.txt'' ''.py''
   \<and> snd (load_test_function (importer_of plain_function) state0 ''tests/a.txt::test_x'' [])
       = Inl (ImportError (''Invalid module filename '' @ quoted ''tests/a.txt''))
   \<and> snd (load_test_function (importer_of plain_function) state0 ''tests/a.py::missing'' [])
       = Inl (AttributeError (quoted ''module'' @ '' object has no attribute '' @ quoted ''missing''))
   \<and> snd (load_test_function (importer_of int_object) state0 ''tests/a.py::test_x'' [])
       = Inl (AttributeError (quoted ''int'' @ '' object has no attribute '' @ quoted ''func_code''))
   \<and> snd (load_test_function (importer_of plain_function) state0 ''tests/a.py::test_x'' [])
       = Inr \<lparr>script = ''tests/a.py::test_x'', filename = ''tests/a.py'', funcname = ''test_x'',
              line = 3, call = CallObject plain_function\<rparr>"
proof -
  have 1: "split_colons ''tests/a.txt::test_x'' = Some (''tests/a.txt'', ''test_x'')" by simp
  have 2: "\<not> endswith ''tests/a.txt'' ''.py''" by (simp add: endswith_def suffix_to_prefix)
  have 3: "split_colons ''tests/a.py::missing'' = Some (''tests/a.py'', ''missing'')" by simp
  have 4: "split_colons ''tests/a.py::test_x'' = Some (''tests/a.py'', ''test_x'')" by simp
  have a: "snd (load_test_function (importer_of plain_function) state0 ''tests/a.txt::test_x'' [])
       = Inl (ImportError (''Invalid module filename '' @ quoted ''tests/a.txt''))"
    using 1 2 load_errors [of "''tests/a.txt::test_x''" "''tests/a.txt''" "''test_x''"
        "importer_of plain_function" state0 "[]"]
    by simp
  have b: "snd (load_test_function (importer_of plain_function) state0 ''tests/a.py::missing'' [])
       = Inl (AttributeError (quoted ''module'' @ '' object has no attribute '' @ quoted ''missing''))"
    using 3 load_errors [where scr = "''tests/a.py::missing''" and path = "''tests/a.py''"
        and fname = "''missing''" and importer = "importer_of plain_function" and s = state0
        and args' = "[]" and m = "[''test_x'' \<mapsto> plain_function]"
        and ?s1.0 = "fst (u_import_by_filename (importer_of plain_function)
               (state0\<lparr>argv := [''tests/a.py::missing''],
                  effects := effects state0 @ [SetArgv [''tests/a.py::missing'']]\<rparr>) ''tests/a.py'')"]
    by (simp add: import_a_py)
  have c: "snd (load_test_function (importer_of int_object) state0 ''tests/a.py::test_x'' [])
       = Inl (AttributeError (quoted ''int'' @ '' object has no attribute '' @ quoted ''func_code''))"
    using 4 load_errors [where scr = "''tests/a.py::test_x''" and path = "''tests/a.py''"
        and fname = "''test_x''" and importer = "importer_of int_object" and s = state0
        and args' = "[]" and m = "[''test_x'' \<mapsto> int_object]"
        and ?s1.0 = "fst (u_import_by_filename (importer_of int_object)
               (state0\<lparr>argv := [''tests/a.py::test_x''],
                  effects := effects state0 @ [SetArgv [''tests/a.py::test_x'']]\<rparr>) ''tests/a.py'')"]
    by (simp add: import_a_py int_object_def)
  have d: "snd (load_test_function (importer_of plain_function) state0 ''tests/a.py::test_x'' [])
       = Inr \<lparr>script = ''tests/a.py::test_x'', filename = ''tests/a.py'', funcname = ''test_x'',
              line = 3, call = CallObject plain_function\<rparr>"
    using 4 load_errors [where scr = "''tests/a.py::test_x''" and path = "''tests/a.py''"
        and fname = "''test_x''" and importer = "importer_of plain_function" and s = state0
        and args' = "[]" and m = "[''test_x'' \<mapsto> plain_function]"
        and ?s1.0 = "fst (u_import_by_filename (importer_of plain_function)
               (state0\<lparr>argv := [''tests/a.py::test_x''],
                  effects := effects state0 @ [SetArgv [''tests/a.py::test_x'']]\<rparr>) ''tests/a.py'')"]
    by (simp add: import_a_py plain_function_def test_x_code_def)
  from 1 2 a b c d show ?thesis by simp
qed

text \<open>
  The attribute \<open>test_x\<close> of the module is an object that is not callable and has a
  \<open>func_code\<close> attribute: loading succeeds, and \<open>call\<close> is that object.
\<close>

theorem non_callable_attribute_loaded:
  "obj_callable fake_object = False
   \<and> snd (load_test_function (importer_of fake_object) state0 ''tests/a.py::test_x'' [])
       = Inr \<lparr>script = ''tests/a.py::test_x'', filename = ''tests/a.py'', funcname = ''test_x'',
              line = 3, call = CallObject fake_object\<rparr>"
  by (simp add: load_test_function_def Let_def import_a_py fake_object_def test_x_code_def)

text \<open>
  C10. In both forms of the identifier, and whether loading succeeds or fails,
  \<open>sys.argv\<close> is \<open>[script] + args\<close> afterwards, its assignment is the first thing the
  loader does, before the assignment to \<open>sys.path\<close> and the import, and the importer
  is only asked in states in which \<open>sys.argv\<close> is already \<open>[script] + args\<close>.
\<close>

theorem argv_set_first:
  "argv (fst (load_test_function importer s scr args')) = scr # args'
   \<and> (\<exists>rest. effects (fst (load_test_function importer s scr args'))
               = effects s @ SetArgv (scr # args') # rest)
   \<and> ((\<forall>st n. argv st = scr # args' \<longrightarrow> importer' st n = importer st n)
      \<longrightarrow> load_test_function importer' s scr args' = load_test_function importer s scr args')"
proof (intro conjI impI)
  let ?s0 = "s\<lparr>argv := scr # args', effects := effects s @ [SetArgv (scr # args')]\<rparr>"
  show "argv (fst (load_test_function importer s scr args')) = scr # args'"
  proof (cases "split_colons scr")
    case None
    then show ?thesis by (simp add: load_test_function_def Let_def)
  next
    case (Some pf)
    obtain path fname where pf: "pf = (path, fname)" by (cases pf)
    obtain s1 r where i: "u_import_by_filename importer ?s0 path = (s1, r)"
      by (cases "u_import_by_filename importer ?s0 path")
    from import_by_filename_effects [OF i] have "argv s1 = scr # args'" by simp
    with Some pf i show ?thesis
      by (simp add: load_test_function_def Let_def split: sum.splits option.splits)
  qed
  show "\<exists>rest. effects (fst (load_test_function importer s scr args'))
               = effects s @ SetArgv (scr # args') # rest"
  proof (cases "split_colons scr")
    case None
    then show ?thesis by (simp add: load_test_function_def Let_def)
  next
    case (Some pf)
    obtain path fname where pf: "pf = (path, fname)" by (cases pf)
    obtain s1 r where i: "u_import_by_filename importer ?s0 path = (s1, r)"
      by (cases "u_import_by_filename importer ?s0 path")
    from import_by_filename_effects [OF i]
    obtain rest where "effects s1 = effects s @ SetArgv (scr # args') # rest" by auto
    with Some pf i show ?thesis
      by (simp add: load_test_function_def Let_def split: sum.splits option.splits)
  qed
  assume a: "\<forall>st n. argv st = scr # args' \<longrightarrow> importer' st n = importer st n"
  have "u_import_by_filename importer' ?s0 path = u_import_by_filename importer ?s0 path" for path
    using a by (simp add: u_import_by_filename_def Let_def split: prod.splits)
  then show "load_test_function importer' s scr args' = load_test_function importer s scr args'"
    by (cases "split_colons scr") (auto simp: load_test_function_def Let_def)
qed

theorem argv_set_first_witness:
  "argv (fst (load_test_function (importer_of plain_function) state0
                ''tests/a.py::test_x'' [''--flag''])) = [''tests/a.py::test_x'', ''--flag'']
   \<and> effects (fst (load_test_function (importer_of plain_function) state0
                ''tests/a.py::test_x'' [''--flag'']))
       = [SetArgv [''tests/a.py::test_x'', ''--flag''], SetSysPath [''/home/u/tests''],
          Import ''a'']
   \<and> argv (fst (load_test_function (importer_of plain_function) state0
                ''tests/a.py'' [''--flag''])) = [''tests/a.py'', ''--flag'']
   \<and> load_test_function
         (\<lambda>st n. if argv st = [''tests/a.py::test_x'', ''--flag'']
                  then importer_of plain_function st n else Inl runtime_error)
         state0 ''tests/a.py::test_x'' [''--flag'']
       = load_test_function (importer_of plain_function) state0
           ''tests/a.py::test_x'' [''--flag'']"
proof -
  have e: "effects (fst (load_test_function (importer_of plain_function) state0
                ''tests/a.py::test_x'' [''--flag'']))
       = [SetArgv [''tests/a.py::test_x'', ''--flag''], SetSysPath [''/home/u/tests''],
          Import ''a'']"
    by code_simp
  show ?thesis
    using e
      argv_set_first [of "importer_of plain_function" state0 "''tests/a.py::test_x''"
        "[''--flag'']"
        "\<lambda>st n. if argv st = [''tests/a.py::test_x'', ''--flag'']
                  then importer_of plain_function st n else Inl runtime_error"]
      argv_set_first [of "importer_of plain_function" state0 "''tests/a.py''"
        "[''--flag'']" "importer_of plain_function"]
    by simp
qed

subsection \<open>The line tracer\<close>

text \<open>
  C8. While the hook is installed with the absolute path \<open>absfilename\<close>, an event is
  reported to the sink if and only if it is a \<open>line\<close> event whose frame has exactly that
  file name. In a run of \<open>tracing\<close> the path is \<open>os.path.abspath\<close> of the \<open>filename\<close>
  of the test function, computed before the hook is installed: a line is reported
  during the run if and only if it is the line of a \<open>line\<close> event of that file.
\<close>

theorem only_own_lines_forwarded:
  "(hook t = Some absfilename \<longrightarrow>
      run_events [(frame', event)] t =
        (if event = ''line'' \<and> co_filename (f_code frame') = absfilename
         then t\<lparr>ops := ops t @ [Sink (LogCurrentLine absfilename (f_lineno frame'))]\<rparr>
         else t))
   \<and> (Sink (LogCurrentLine f n)
          \<in> set (ops (fst (tracing save_trace_arg test_function cwd' events body t)))
       \<longleftrightarrow> Sink (LogCurrentLine f n) \<in> set (ops t)
           \<or> (f = os_path_abspath cwd' (filename test_function)
               \<and> (\<exists>fr. (fr, ''line'') \<in> set events
                        \<and> co_filename (f_code fr) = f \<and> f_lineno fr = n)))"
proof (intro conjI impI)
  assume "hook t = Some absfilename"
  then show "run_events [(frame', event)] t =
        (if event = ''line'' \<and> co_filename (f_code frame') = absfilename
         then t\<lparr>ops := ops t @ [Sink (LogCurrentLine absfilename (f_lineno frame'))]\<rparr>
         else t)"
    by (auto simp: tracefunc_def)
next
  show "Sink (LogCurrentLine f n)
          \<in> set (ops (fst (tracing save_trace_arg test_function cwd' events body t)))
       \<longleftrightarrow> Sink (LogCurrentLine f n) \<in> set (ops t)
           \<or> (f = os_path_abspath cwd' (filename test_function)
               \<and> (\<exists>fr. (fr, ''line'') \<in> set events
                        \<and> co_filename (f_code fr) = f \<and> f_lineno fr = n))"
    by (simp add: tracing_ops line_report_mem)
qed

text \<open>
  The test file \<open>/home/u/tests/a.py\<close> calls into a library: with the hook installed
  for the test file, a line of the library is not reported and a line of the test file
  is; the run reports line 3 of the test file and not line 11 of the library.
\<close>

theorem only_own_lines_forwarded_witness:
  "run_events [(frame_at ''/usr/lib/python2.7/lib.py'' 11, ''line'')]
     (tracer0\<lparr>hook := Some ''/home/u/tests/a.py''\<rparr>)
     = tracer0\<lparr>hook := Some ''/home/u/tests/a.py''\<rparr>
   \<and> run_events [(frame_at ''/home/u/tests/a.py'' 2, ''line'')]
       (tracer0\<lparr>hook := Some ''/home/u/tests/a.py''\<rparr>)
     = tracer0\<lparr>hook := Some ''/home/u/tests/a.py'',
               ops := [Sink (LogCurrentLine ''/home/u/tests/a.py'' 2)]\<rparr>
   \<and> Sink (LogCurrentLine ''/home/u/tests/a.py'' 3)
       \<in> set (ops (fst (tracing ''trace'' whole_file_test ''/home/u'' example_events
                          Returned tracer0)))
   \<and> Sink (LogCurrentLine ''/usr/lib/python2.7/lib.py'' 11)
       \<notin> set (ops (fst (tracing ''trace'' whole_file_test ''/home/u'' example_events
                          Returned tracer0)))"
proof -
  have f: "filename whole_file_test = ''tests/a.py''" by (simp add: whole_file_test_def)
  have a: "(frame_at ''/home/u/tests/a.py'' 3, ''line'') \<in> set example_events"
    by (simp add: example_events_def)
  have 1: "run_events [(frame_at ''/usr/lib/python2.7/lib.py'' 11, ''line'')]
     (tracer0\<lparr>hook := Some ''/home/u/tests/a.py''\<rparr>)
     = tracer0\<lparr>hook := Some ''/home/u/tests/a.py''\<rparr>"
    using only_own_lines_forwarded [of "tracer0\<lparr>hook := Some ''/home/u/tests/a.py''\<rparr>"
        "''/home/u/tests/a.py''" "frame_at ''/usr/lib/python2.7/lib.py'' 11" "''line''"]
    by (simp add: frame_at_def)
  have 2: "run_events [(frame_at ''/home/u/tests/a.py'' 2, ''line'')]
       (tracer0\<lparr>hook := Some ''/home/u/tests/a.py''\<rparr>)
     = tracer0\<lparr>hook := Some ''/home/u/tests/a.py'',
               ops := [Sink (LogCurrentLine ''/home/u/tests/a.py'' 2)]\<rparr>"
    using only_own_lines_forwarded [of "tracer0\<lparr>hook := Some ''/home/u/tests/a.py''\<rparr>"
        "''/home/u/tests/a.py''" "frame_at ''/home/u/tests/a.py'' 2" "''line''"]
    by (simp add: frame_at_def tracer0_def)
  have 3: "Sink (LogCurrentLine ''/home/u/tests/a.py'' 3)
       \<in> set (ops (fst (tracing ''trace'' whole_file_test ''/home/u'' example_events
                          Returned tracer0)))"
    using a only_own_lines_forwarded [where f = "''/home/u/tests/a.py''" and n = 3
        and save_trace_arg = "''trace''" and test_function = whole_file_test
        and cwd' = "''/home/u''" and events = example_events and body = Returned
        and t = tracer0, THEN conjunct2]
    by (auto simp: f example_abspath frame_at_def)
  have 4: "Sink (LogCurrentLine ''/usr/lib/python2.7/lib.py'' 11)
       \<notin> set (ops (fst (tracing ''trace'' whole_file_test ''/home/u'' example_events
                          Returned tracer0)))"
    using only_own_lines_forwarded [where f = "''/usr/lib/python2.7/lib.py''" and n = 11
        and save_trace_arg = "''trace''" and test_function = whole_file_test
        and cwd' = "''/home/u''" and events = example_events and body = Returned
        and t = tracer0, THEN conjunct2]
    by (simp add: f example_abspath tracer0_def)
  from 1 2 3 4 show ?thesis by simp
qed

text \<open>
  C9. A run of \<open>tracing\<close> adds to the operations, in this order: the making of the
  sink, \<open>log_test_starting\<close> with the test function, the installation of the hook, the
  line reports of the test, the removal of the hook, \<open>log_test_ended\<close> and \<open>close\<close>.
  This is so whether the test returns or raises, and its outcome is passed on. No hook
  is installed afterwards, and \<open>log_test_ended\<close> and \<open>close\<close> are each called once.
\<close>

theorem tracing_sequence:
  "tracing save_trace_arg test_function cwd' events body t =
     (t\<lparr>ops := ops t @
          [NewStateSender save_trace_arg, Sink (LogTestStarting test_function),
           SetTrace (Some (os_path_abspath cwd' (filename test_function)))] @
          map (\<lambda>(frame', event). Sink (LogCurrentLine (co_filename (f_code frame')) (f_lineno frame')))
            (filter (\<lambda>(frame', event). event = ''line''
                       \<and> co_filename (f_code frame') = os_path_abspath cwd' (filename test_function))
               events) @
          [SetTrace None, Sink LogTestEnded, Sink Close],
        hook := None\<rparr>, body)
   \<and> count_list (drop (length (ops t))
                   (ops (fst (tracing save_trace_arg test_function cwd' events body t))))
        (Sink LogTestEnded) = 1
   \<and> count_list (drop (length (ops t))
                   (ops (fst (tracing save_trace_arg test_function cwd' events body t))))
        (Sink Close) = 1
   \<and> count_list (drop (length (ops t))
                   (ops (fst (tracing save_trace_arg test_function cwd' events body t))))
        (SetTrace None) = 1"
proof -
  have 1: "count_list (drop (length (ops t))
                   (ops (fst (tracing save_trace_arg test_function cwd' events body t)))) c = 1"
    if "c = Sink LogTestEnded \<or> c = Sink Close \<or> c = SetTrace None" for c
    using that by (auto simp: tracing_ops count_line_reports)
  from 1 [of "Sink LogTestEnded"] 1 [of "Sink Close"] 1 [of "SetTrace None"]
  show ?thesis by (simp add: tracing_ops)
qed

text \<open>The run of the test file above, once returning and once raising.\<close>

theorem tracing_sequence_witness:
  "tracing ''trace'' whole_file_test ''/home/u'' example_events Returned tracer0 =
     (\<lparr>ops = [NewStateSender ''trace'', Sink (LogTestStarting whole_file_test),
              SetTrace (Some ''/home/u/tests/a.py''),
              Sink (LogCurrentLine ''/home/u/tests/a.py'' 2),
              Sink (LogCurrentLine ''/home/u/tests/a.py'' 3),
              SetTrace None, Sink LogTestEnded, Sink Close],
       hook = None\<rparr>, Returned)
   \<and> tracing ''trace'' whole_file_test ''/home/u'' example_events (Raised assertion_error)
       tracer0 =
     (\<lparr>ops = [NewStateSender ''trace'', Sink (LogTestStarting whole_file_test),
              SetTrace (Some ''/home/u/tests/a.py''),
              Sink (LogCurrentLine ''/home/u/tests/a.py'' 2),
              Sink (LogCurrentLine ''/home/u/tests/a.py'' 3),
              SetTrace None, Sink LogTestEnded, Sink Close],
       hook = None\<rparr>, Raised assertion_error)"
proof -
  have f: "filename whole_file_test = ''tests/a.py''" by (simp add: whole_file_test_def)
  show ?thesis
    using tracing_sequence [of "''trace''" whole_file_test "''/home/u''" example_events
            Returned tracer0, THEN conjunct1]
          tracing_sequence [of "''trace''" whole_file_test "''/home/u''" example_events
            "Raised assertion_error" tracer0, THEN conjunct1]
    by (simp add: f example_abspath example_events_def frame_at_def tracer0_def)
qed

end
